theory Spec2Isabelle
  imports Complex_Main
begin

section \<open>JavaScript numbers\<close>

text \<open>
  A JavaScript number is modelled as a real number or one of the three special values of
  IEEE 754 arithmetic.  Rounding is not modelled and zero carries no sign (a division of a
  positive number by zero is \<open>+Infinity\<close>).  The special values matter to the risk engine:
  \<open>calculateWeightedScore\<close> leaves out the factors that are \<open>NaN\<close>, and
  \<open>updateBiometricProfile\<close> stores \<open>0 / 0\<close> for an empty timing array.
\<close>

datatype jsnum = Num real | PInf | NInf | NaN

fun jneg :: "jsnum \<Rightarrow> jsnum" where
  "jneg (Num a) = Num (- a)"
| "jneg PInf = NInf"
| "jneg NInf = PInf"
| "jneg NaN = NaN"

fun jadd :: "jsnum \<Rightarrow> jsnum \<Rightarrow> jsnum" where
  "jadd NaN _ = NaN"
| "jadd _ NaN = NaN"
| "jadd (Num a) (Num b) = Num (a + b)"
| "jadd PInf NInf = NaN"
| "jadd NInf PInf = NaN"
| "jadd PInf _ = PInf"
| "jadd NInf _ = NInf"
| "jadd (Num a) PInf = PInf"
| "jadd (Num a) NInf = NInf"

definition jsub :: "jsnum \<Rightarrow> jsnum \<Rightarrow> jsnum" where
  "jsub a b = jadd a (jneg b)"

text \<open>The sign of an infinite product: \<open>Infinity * 0\<close> is \<open>NaN\<close>.\<close>

definition inf_signed :: "bool \<Rightarrow> real \<Rightarrow> jsnum" where
  "inf_signed pos b = (if b = 0 then NaN else if (0 < b) = pos then PInf else NInf)"

fun jmul :: "jsnum \<Rightarrow> jsnum \<Rightarrow> jsnum" where
  "jmul NaN _ = NaN"
| "jmul _ NaN = NaN"
| "jmul (Num a) (Num b) = Num (a * b)"
| "jmul PInf PInf = PInf"
| "jmul NInf NInf = PInf"
| "jmul PInf NInf = NInf"
| "jmul NInf PInf = NInf"
| "jmul PInf (Num b) = inf_signed True b"
| "jmul NInf (Num b) = inf_signed False b"
| "jmul (Num a) PInf = inf_signed True a"
| "jmul (Num a) NInf = inf_signed False a"

text \<open>
  Division: a finite number over zero is \<open>NaN\<close> for \<open>0 / 0\<close> and an infinity otherwise;
  a finite number over an infinity is zero; an infinity over an infinity is \<open>NaN\<close>.
\<close>

fun jdiv :: "jsnum \<Rightarrow> jsnum \<Rightarrow> jsnum" where
  "jdiv NaN _ = NaN"
| "jdiv _ NaN = NaN"
| "jdiv (Num a) (Num b) =
     (if b = 0 then (if a = 0 then NaN else if 0 < a then PInf else NInf)
      else Num (a / b))"
| "jdiv (Num a) PInf = Num 0"
| "jdiv (Num a) NInf = Num 0"
| "jdiv PInf (Num b) = (if 0 \<le> b then PInf else NInf)"
| "jdiv NInf (Num b) = (if 0 \<le> b then NInf else PInf)"
| "jdiv PInf _ = NaN"
| "jdiv NInf _ = NaN"

fun jabs :: "jsnum \<Rightarrow> jsnum" where
  "jabs (Num a) = Num \<bar>a\<bar>"
| "jabs PInf = PInf"
| "jabs NInf = PInf"
| "jabs NaN = NaN"

text \<open>\<open>Math.min\<close> of two arguments: \<open>NaN\<close> when either is.\<close>

fun jmin :: "jsnum \<Rightarrow> jsnum \<Rightarrow> jsnum" where
  "jmin NaN _ = NaN"
| "jmin _ NaN = NaN"
| "jmin (Num a) (Num b) = Num (min a b)"
| "jmin NInf _ = NInf"
| "jmin _ NInf = NInf"
| "jmin PInf b = b"
| "jmin a PInf = a"

fun jsqrt :: "jsnum \<Rightarrow> jsnum" where
  "jsqrt (Num a) = (if a < 0 then NaN else Num (sqrt a))"
| "jsqrt PInf = PInf"
| "jsqrt NInf = NaN"
| "jsqrt NaN = NaN"

text \<open>The comparison \<open>a < b\<close>; every comparison with \<open>NaN\<close> is false.\<close>

fun jlt :: "jsnum \<Rightarrow> jsnum \<Rightarrow> bool" where
  "jlt NaN _ = False"
| "jlt _ NaN = False"
| "jlt (Num a) (Num b) = (a < b)"
| "jlt NInf NInf = False"
| "jlt NInf _ = True"
| "jlt _ NInf = False"
| "jlt PInf _ = False"
| "jlt (Num a) PInf = True"

definition jgt :: "jsnum \<Rightarrow> jsnum \<Rightarrow> bool" where
  "jgt a b = jlt b a"

text \<open>\<open>x || 0\<close> on a number: the falsy numbers are zero and \<open>NaN\<close>.\<close>

fun or0 :: "jsnum \<Rightarrow> jsnum" where
  "or0 NaN = Num 0"
| "or0 x = x"

text \<open>\<open>isNaN\<close> on a number.\<close>

fun isNaN :: "jsnum \<Rightarrow> bool" where
  "isNaN NaN = True"
| "isNaN _ = False"

text \<open>\<open>array.reduce((sum, val) => sum + val, 0)\<close>\<close>

definition jsum :: "jsnum list \<Rightarrow> jsnum" where
  "jsum xs = foldl jadd (Num 0) xs"

section \<open>Feature extractor (client/src/lib/biometrics.ts)\<close>

record KeyMetrics =
  downTime :: real
  upTime :: real
  km_holdTimes :: "real list"
  km_flightTimes :: "real list"
  lastKeyUp :: real
  character :: string

record TypingSession =
  sess_holdTimes :: "real list"
  sess_flightTimes :: "real list"
  sess_errorRate :: real
  sess_typingSpeed :: jsnum
  consistencyScore :: real
  sessionStart :: real
  totalKeystrokes :: nat
  corrections :: nat

text \<open>
  The state of a \<open>BiometricCapture\<close> object: the map of per-key metrics and the session.
  The listeners and the \<open>onMetricsUpdate\<close> observer receive copies and change nothing.
\<close>

record BiometricCapture =
  metrics :: "string \<rightharpoonup> KeyMetrics"
  sessionData :: TypingSession

definition initializeSession :: "real \<Rightarrow> TypingSession" where
  "initializeSession now =
     \<lparr> sess_holdTimes = [], sess_flightTimes = [], sess_errorRate = 0,
       sess_typingSpeed = Num 0, consistencyScore = 0, sessionStart = now,
       totalKeystrokes = 0, corrections = 0 \<rparr>"

definition newCapture :: "real \<Rightarrow> BiometricCapture" where
  "newCapture now = \<lparr> metrics = Map.empty, sessionData = initializeSession now \<rparr>"

definition modifierKeys :: "string list" where
  "modifierKeys =
     [''Shift'', ''Control'', ''Alt'', ''Meta'', ''CapsLock'', ''Tab'', ''Escape'',
      ''Enter'', ''ArrowUp'', ''ArrowDown'', ''ArrowLeft'', ''ArrowRight'', ''Home'',
      ''End'', ''PageUp'', ''PageDown'', ''Insert'', ''Delete'']"

definition isModifierKey :: "string \<Rightarrow> bool" where
  "isModifierKey key = (key \<in> set modifierKeys \<or> take 1 key = ''F'')"

definition capture_calculateVariance :: "real list \<Rightarrow> real" where
  "capture_calculateVariance values =
     (if length values = 0 then 0
      else (let mean = sum_list values / real (length values);
                squaredDiffs = map (\<lambda>v. (v - mean)\<^sup>2) values
            in sum_list squaredDiffs / real (length values)))"

text \<open>\<open>now\<close> is the clock reading \<open>performance.now()\<close> taken inside the function.\<close>

definition calculateTypingSpeed :: "real \<Rightarrow> TypingSession \<Rightarrow> TypingSession" where
  "calculateTypingSpeed now s =
     (let timeElapsed = (now - sessionStart s) / 1000 / 60;
          wordsTyped = real (totalKeystrokes s) / 5
      in s\<lparr> sess_typingSpeed := jdiv (Num wordsTyped) (Num timeElapsed) \<rparr>)"

definition calculateErrorRate :: "TypingSession \<Rightarrow> TypingSession" where
  "calculateErrorRate s =
     (if totalKeystrokes s = 0 then s\<lparr> sess_errorRate := 0 \<rparr>
      else s\<lparr> sess_errorRate := real (corrections s) / real (totalKeystrokes s) * 100 \<rparr>)"

definition calculateConsistencyScore :: "TypingSession \<Rightarrow> TypingSession" where
  "calculateConsistencyScore s =
     (if length (sess_holdTimes s) < 2 then s\<lparr> consistencyScore := 0 \<rparr>
      else (let holdTimeVariance = capture_calculateVariance (sess_holdTimes s);
                flightTimeVariance =
                  (if length (sess_flightTimes s) > 1
                   then capture_calculateVariance (sess_flightTimes s) else 0);
                normalizedHoldVar = max 0 (100 - holdTimeVariance / 10);
                normalizedFlightVar = max 0 (100 - flightTimeVariance / 10)
            in s\<lparr> consistencyScore := (normalizedHoldVar + normalizedFlightVar) / 2 \<rparr>))"

definition updateSession :: "real \<Rightarrow> BiometricCapture \<Rightarrow> BiometricCapture" where
  "updateSession now bc =
     bc\<lparr> sessionData :=
           calculateConsistencyScore (calculateErrorRate
             (calculateTypingSpeed now (sessionData bc))) \<rparr>"

text \<open>
  \<open>captureKeyDown\<close>: \<open>timestamp\<close> is the clock reading at the entry of the handler,
  \<open>now\<close> the later reading of \<open>calculateTypingSpeed\<close>.  A key that is not ignored gets a
  fresh metrics record, whose \<open>lastKeyUp\<close> is 0.
\<close>

definition captureKeyDown :: "string \<Rightarrow> real \<Rightarrow> real \<Rightarrow> BiometricCapture \<Rightarrow> BiometricCapture" where
  "captureKeyDown key timestamp now bc =
     (if isModifierKey key then bc
      else if key = ''Backspace'' then
        updateSession now
          (bc\<lparr> sessionData := (sessionData bc)\<lparr> corrections := corrections (sessionData bc) + 1 \<rparr> \<rparr>)
      else
        bc\<lparr> metrics := (metrics bc)(key \<mapsto>
               \<lparr> downTime = timestamp, upTime = 0, km_holdTimes = [], km_flightTimes = [],
                 lastKeyUp = 0, character = key \<rparr>),
            sessionData := (sessionData bc)\<lparr> totalKeystrokes := totalKeystrokes (sessionData bc) + 1 \<rparr> \<rparr>)"

definition captureKeyUp :: "string \<Rightarrow> real \<Rightarrow> real \<Rightarrow> BiometricCapture \<Rightarrow> BiometricCapture" where
  "captureKeyUp key timestamp now bc =
     (if isModifierKey key then bc
      else case metrics bc key of
        None \<Rightarrow> bc
      | Some metric \<Rightarrow>
          (let holdTime = timestamp - downTime metric;
               metric1 = metric\<lparr> upTime := timestamp,
                                km_holdTimes := km_holdTimes metric @ [holdTime] \<rparr>;
               s1 = (sessionData bc)\<lparr> sess_holdTimes := sess_holdTimes (sessionData bc) @ [holdTime] \<rparr>;
               flightTime = downTime metric1 - lastKeyUp metric1;
               metric2 = (if lastKeyUp metric1 > 0
                          then metric1\<lparr> km_flightTimes := km_flightTimes metric1 @ [flightTime] \<rparr>
                          else metric1);
               s2 = (if lastKeyUp metric1 > 0
                     then s1\<lparr> sess_flightTimes := sess_flightTimes s1 @ [flightTime] \<rparr>
                     else s1);
               metric3 = metric2\<lparr> lastKeyUp := timestamp \<rparr>
           in updateSession now
                (bc\<lparr> metrics := (metrics bc)(key \<mapsto> metric3), sessionData := s2 \<rparr>)))"

text \<open>A keyboard event as the handlers see it: the key and the two clock readings.\<close>

datatype KeyEvent = KeyDown string real real | KeyUp string real real

fun handleEvent :: "BiometricCapture \<Rightarrow> KeyEvent \<Rightarrow> BiometricCapture" where
  "handleEvent bc (KeyDown key t now) = captureKeyDown key t now bc"
| "handleEvent bc (KeyUp key t now) = captureKeyUp key t now bc"

definition processEvents :: "BiometricCapture \<Rightarrow> KeyEvent list \<Rightarrow> BiometricCapture" where
  "processEvents bc evs = foldl handleEvent bc evs"

section \<open>Local risk estimator (client, \<open>RiskCalculator\<close> over TensorFlow.js)\<close>

datatype Action = GRANT | DENY | STEP_UP

record RiskPrediction =
  riskScore :: jsnum
  rp_confidence :: real
  recommendation :: Action
  rp_features :: "jsnum list"

text \<open>
  The TensorFlow.js model is an external library object.  It is represented by what the
  pipeline of \<open>calculateRisk\<close> computes with it (\<open>tensor2d\<close>, \<open>sub\<close>, \<open>div\<close>,
  \<open>predict\<close>, \<open>data\<close>, first component) from the normalisation parameters and the
  features: \<open>None\<close> when the pipeline throws, which the \<open>catch\<close> branch turns into
  the fallback.
\<close>

type_synonym tf_model = "real list \<times> real list \<Rightarrow> jsnum list \<Rightarrow> jsnum option"

record LocalRiskCalculator =
  model :: "tf_model option"
  isModelReady :: bool
  normalizeParams :: "(real list \<times> real list) option"

text \<open>
  The features are the eight numbers of \<open>getTypingFeatures\<close>; the typing speed among
  them can be \<open>NaN\<close> or infinite.  In the array destructuring
  \<open>[holdTime, flightTime, , , speed, errorRate, consistency]\<close> a missing component is
  \<open>undefined\<close>, and every comparison with it is false.
\<close>

definition component :: "jsnum list \<Rightarrow> nat \<Rightarrow> jsnum option" where
  "component fs i = (if i < length fs then Some (fs ! i) else None)"

definition below :: "jsnum option \<Rightarrow> real \<Rightarrow> bool" where
  "below x b = (case x of None \<Rightarrow> False | Some v \<Rightarrow> jlt v (Num b))"

definition above :: "jsnum option \<Rightarrow> real \<Rightarrow> bool" where
  "above x b = (case x of None \<Rightarrow> False | Some v \<Rightarrow> jgt v (Num b))"

definition local_calculateConfidence :: "jsnum list \<Rightarrow> real" where
  "local_calculateConfidence fs =
     (let holdTime = component fs 0; flightTime = component fs 1; speed = component fs 4;
          errorRate = component fs 5; consistency = component fs 6;
          c0 = 1;
          c1 = (if below holdTime 20 \<or> above holdTime 300 then c0 * 0.8 else c0);
          c2 = (if below flightTime 10 \<or> above flightTime 500 then c1 * 0.8 else c1);
          c3 = (if below speed 10 \<or> above speed 200 then c2 * 0.7 else c2);
          c4 = (if above errorRate 20 then c3 * 0.6 else c3);
          c5 = (if below consistency 30 then c4 * 0.7 else c4)
      in max 0.1 c5)"

definition getRecommendation :: "jsnum \<Rightarrow> real \<Rightarrow> Action" where
  "getRecommendation risk conf =
     (if conf < 0.5 then STEP_UP
      else if jlt risk (Num 0.3) then GRANT
      else if jgt risk (Num 0.7) then DENY
      else STEP_UP)"

definition local_calculateRisk :: "LocalRiskCalculator \<Rightarrow> jsnum list \<Rightarrow> RiskPrediction" where
  "local_calculateRisk rc fs =
     (if \<not> isModelReady rc \<or> model rc = None \<or> normalizeParams rc = None
      then \<lparr> riskScore = Num 0.5, rp_confidence = 0.1, recommendation = STEP_UP, rp_features = fs \<rparr>
      else (case (model rc, normalizeParams rc) of
              (Some m, Some params) \<Rightarrow>
                (case m params fs of
                   None \<Rightarrow> \<lparr> riskScore = Num 0.5, rp_confidence = 0.1, recommendation = STEP_UP,
                             rp_features = fs \<rparr>
                 | Some risk \<Rightarrow>
                     (let conf = local_calculateConfidence fs
                      in \<lparr> riskScore = risk, rp_confidence = conf,
                           recommendation = getRecommendation risk conf, rp_features = fs \<rparr>))
            | _ \<Rightarrow> \<lparr> riskScore = Num 0.5, rp_confidence = 0.1, recommendation = STEP_UP,
                     rp_features = fs \<rparr>))"

definition isReady :: "LocalRiskCalculator \<Rightarrow> bool" where
  "isReady rc = (isModelReady rc \<and> model rc \<noteq> None)"

section \<open>Risk fusion engine (server/services/riskCalculator.js)\<close>

text \<open>
  The features of a login request are finite numbers: they arrive as JSON and pass the
  controller's schema.  The fields of a stored sample are JavaScript numbers, since
  \<open>updateBiometricProfile\<close> can store \<open>NaN\<close>.  Times are milliseconds since the epoch.
\<close>

record BiometricFeatures =
  holdTimes :: "real list"
  flightTimes :: "real list"
  errorRate :: real
  typingSpeed :: real
  timestamp :: real

record BiometricSampleSummary =
  avgHoldTime :: jsnum
  avgFlightTime :: jsnum
  holdTimeVariance :: jsnum
  flightTimeVariance :: jsnum
  smp_errorRate :: jsnum
  smp_typingSpeed :: jsnum
  holdVelocityVariance :: "jsnum option"
  smp_timestamp :: int

record BiometricProfile =
  userId :: string
  createdAt :: int
  lastUpdated :: int
  samples :: "BiometricSampleSummary list"

record RiskFactors =
  temporal :: jsnum
  behavioral :: jsnum
  consistency :: jsnum
  deviation :: jsnum
  velocity :: jsnum
  client :: jsnum

text \<open>The \<open>analysis\<close> text of a decision is not modelled.\<close>

record RiskDecision =
  finalScore :: jsnum
  factors :: RiskFactors
  confidence :: jsnum

definition calculateAverage :: "jsnum list \<Rightarrow> jsnum" where
  "calculateAverage array =
     (if length array > 0 then jdiv (jsum array) (Num (real (length array))) else Num 0)"

definition calculateVariance :: "jsnum list \<Rightarrow> jsnum" where
  "calculateVariance array =
     (if length array < 2 then Num 0
      else (let avg = calculateAverage array;
                squaredDiffs = map (\<lambda>val. jmul (jsub val avg) (jsub val avg)) array
            in calculateAverage squaredDiffs))"

definition calculateStandardDeviation :: "jsnum list \<Rightarrow> jsnum" where
  "calculateStandardDeviation array = jsqrt (calculateVariance array)"

definition calculateZScore :: "jsnum \<Rightarrow> jsnum list \<Rightarrow> jsnum" where
  "calculateZScore val historicalValues =
     (if length historicalValues < 2 then Num 0
      else (let mean = calculateAverage historicalValues;
                std = calculateStandardDeviation historicalValues
            in if jgt std (Num 0) then jdiv (jsub val mean) std else Num 0))"

definition calculateTemporalRisk :: "BiometricFeatures \<Rightarrow> BiometricProfile \<Rightarrow> jsnum" where
  "calculateTemporalRisk current profile =
     (let avgHoldTimes = calculateAverage (map avgHoldTime (samples profile));
          avgFlightTimes = calculateAverage (map avgFlightTime (samples profile));
          currentHoldAvg = calculateAverage (map Num (holdTimes current));
          currentFlightAvg = calculateAverage (map Num (flightTimes current));
          holdDeviation = jdiv (jabs (jsub currentHoldAvg avgHoldTimes)) avgHoldTimes;
          flightDeviation = jdiv (jabs (jsub currentFlightAvg avgFlightTimes)) avgFlightTimes;
          holdRisk = jmin (jmul holdDeviation (Num 2)) (Num 1);
          flightRisk = jmin (jmul flightDeviation (Num 2)) (Num 1)
      in jdiv (jadd holdRisk flightRisk) (Num 2))"

definition calculateBehavioralRisk :: "BiometricFeatures \<Rightarrow> BiometricProfile \<Rightarrow> jsnum" where
  "calculateBehavioralRisk current profile =
     (let avgErrorRate = calculateAverage (map smp_errorRate (samples profile));
          avgTypingSpeed = calculateAverage (map smp_typingSpeed (samples profile));
          errorDeviation = jabs (jsub (Num (errorRate current)) avgErrorRate);
          speedDeviation =
            jdiv (jabs (jsub (Num (typingSpeed current)) avgTypingSpeed)) avgTypingSpeed;
          errorRisk = jmin (jmul errorDeviation (Num 5)) (Num 1);
          speedRisk = jmin (jmul speedDeviation (Num 3)) (Num 1)
      in jdiv (jadd errorRisk speedRisk) (Num 2))"

definition calculateConsistencyRisk :: "BiometricFeatures \<Rightarrow> BiometricProfile \<Rightarrow> jsnum" where
  "calculateConsistencyRisk current profile =
     (let currentHoldVariance = calculateVariance (map Num (holdTimes current));
          currentFlightVariance = calculateVariance (map Num (flightTimes current));
          historicalHoldVariances = map (\<lambda>s. or0 (holdTimeVariance s)) (samples profile);
          historicalFlightVariances = map (\<lambda>s. or0 (flightTimeVariance s)) (samples profile);
          avgHoldVariance = calculateAverage historicalHoldVariances;
          avgFlightVariance = calculateAverage historicalFlightVariances;
          holdConsistencyRisk =
            (if jgt avgHoldVariance (Num 0)
             then jdiv (jabs (jsub currentHoldVariance avgHoldVariance)) avgHoldVariance
             else Num 0);
          flightConsistencyRisk =
            (if jgt avgFlightVariance (Num 0)
             then jdiv (jabs (jsub currentFlightVariance avgFlightVariance)) avgFlightVariance
             else Num 0)
      in jmin (jdiv (jadd holdConsistencyRisk flightConsistencyRisk) (Num 2)) (Num 1))"

definition calculateDeviationRisk :: "BiometricFeatures \<Rightarrow> BiometricProfile \<Rightarrow> jsnum" where
  "calculateDeviationRisk current profile =
     (let holdTimeZScore =
            calculateZScore (calculateAverage (map Num (holdTimes current)))
              (map avgHoldTime (samples profile));
          flightTimeZScore =
            calculateZScore (calculateAverage (map Num (flightTimes current)))
              (map avgFlightTime (samples profile));
          typingSpeedZScore =
            calculateZScore (Num (typingSpeed current)) (map smp_typingSpeed (samples profile));
          holdRisk = jmin (jdiv (jabs holdTimeZScore) (Num 3)) (Num 1);
          flightRisk = jmin (jdiv (jabs flightTimeZScore) (Num 3)) (Num 1);
          speedRisk = jmin (jdiv (jabs typingSpeedZScore) (Num 3)) (Num 1)
      in jdiv (jadd (jadd holdRisk flightRisk) speedRisk) (Num 3))"

text \<open>The loop \<open>for (i = 1; i < xs.length; i++) push(xs[i] - xs[i - 1])\<close>.\<close>

fun velocities :: "real list \<Rightarrow> real list" where
  "velocities (a # b # xs) = (b - a) # velocities (b # xs)"
| "velocities _ = []"

text \<open>
  \<open>s.holdVelocityVariance || 0\<close>, the field being optional.  The source also computes
  the velocities of the flight times and their variance, and uses neither.
\<close>

definition holdVelocityVariance_or0 :: "BiometricSampleSummary \<Rightarrow> jsnum" where
  "holdVelocityVariance_or0 s = (case holdVelocityVariance s of None \<Rightarrow> Num 0 | Some v \<Rightarrow> or0 v)"

definition calculateVelocityRisk :: "BiometricFeatures \<Rightarrow> BiometricProfile \<Rightarrow> jsnum" where
  "calculateVelocityRisk current profile =
     (if length (holdTimes current) < 3 \<or> length (flightTimes current) < 3 then Num 0.3
      else (let holdVelocities = velocities (holdTimes current);
                holdVelocityVariance = calculateVariance (map Num holdVelocities);
                historicalHoldVelocityVariance =
                  calculateAverage (map holdVelocityVariance_or0 (samples profile));
                velocityRisk =
                  (if jgt historicalHoldVelocityVariance (Num 0)
                   then jdiv (jabs (jsub holdVelocityVariance historicalHoldVelocityVariance))
                          historicalHoldVelocityVariance
                   else Num 0.3)
            in jmin velocityRisk (Num 1)))"

definition weights :: "(string \<times> real) list" where
  "weights =
     [(''temporal'', 0.25), (''behavioral'', 0.2), (''consistency'', 0.2),
      (''deviation'', 0.15), (''velocity'', 0.1), (''client'', 0.1)]"

text \<open>\<open>Object.entries(factors)\<close>, in the order the properties were created.\<close>

definition entries :: "RiskFactors \<Rightarrow> (string \<times> jsnum) list" where
  "entries f =
     [(''temporal'', temporal f), (''behavioral'', behavioral f),
      (''consistency'', consistency f), (''deviation'', deviation f),
      (''velocity'', velocity f), (''client'', client f)]"

text \<open>
  One round of the loop of \<open>calculateWeightedScore\<close> on the pair
  \<open>(weightedSum, totalWeight)\<close>: a factor counts when it is not \<open>NaN\<close> and its weight
  is defined and not zero.
\<close>

fun weightedStep :: "jsnum \<times> jsnum \<Rightarrow> string \<times> jsnum \<Rightarrow> jsnum \<times> jsnum" where
  "weightedStep (weightedSum, totalWeight) (factor, val) =
     (case map_of weights factor of
        None \<Rightarrow> (weightedSum, totalWeight)
      | Some w \<Rightarrow>
          (if \<not> isNaN val \<and> w \<noteq> 0
           then (jadd weightedSum (jmul val (Num w)), jadd totalWeight (Num w))
           else (weightedSum, totalWeight)))"

definition calculateWeightedScore :: "RiskFactors \<Rightarrow> jsnum" where
  "calculateWeightedScore f =
     (case foldl weightedStep (Num 0, Num 0) (entries f) of
        (weightedSum, totalWeight) \<Rightarrow>
          (if jgt totalWeight (Num 0) then jdiv weightedSum totalWeight else Num 0.5))"

text \<open>\<open>now\<close> is \<open>Date.now()\<close>.\<close>

definition calculateConfidence :: "int \<Rightarrow> BiometricProfile \<Rightarrow> jsnum" where
  "calculateConfidence now profile =
     (let sampleCount = real (length (samples profile));
          daysSinceFirstSample = real_of_int (now - createdAt profile) / (1000 * 60 * 60 * 24);
          sampleConfidence = min (sampleCount / 20) 1;
          timeConfidence = min (daysSinceFirstSample / 30) 1
      in Num ((sampleConfidence + timeConfidence) / 2))"

text \<open>
  \<open>calculateRisk\<close>.  The profile is \<open>None\<close> when the user has none.  None of the
  operations below throws on values of these types, so the \<open>catch\<close> branch of the source
  (final score 0.8, confidence 0) is not reached.
\<close>

definition calculateRisk ::
    "int \<Rightarrow> BiometricFeatures \<Rightarrow> BiometricProfile option \<Rightarrow> real \<Rightarrow> RiskDecision" where
  "calculateRisk now currentFeatures userProfile clientRiskScore =
     (let factors0 = \<lparr> temporal = Num 0, behavioral = Num 0, consistency = Num 0,
                       deviation = Num 0, velocity = Num 0,
                       client = or0 (Num clientRiskScore) \<rparr>
      in case userProfile of
           None \<Rightarrow>
             (let factors1 = factors0\<lparr> temporal := Num 0.4, behavioral := Num 0.4,
                       consistency := Num 0.5, deviation := Num 0.3, velocity := Num 0.3 \<rparr>
              in \<lparr> finalScore = calculateWeightedScore factors1, factors = factors1,
                   confidence = Num 0.3 \<rparr>)
         | Some profile \<Rightarrow>
             (if length (samples profile) = 0 then
                (let factors1 = factors0\<lparr> temporal := Num 0.4, behavioral := Num 0.4,
                       consistency := Num 0.5, deviation := Num 0.3, velocity := Num 0.3 \<rparr>
                 in \<lparr> finalScore = calculateWeightedScore factors1, factors = factors1,
                      confidence = Num 0.3 \<rparr>)
              else
                (let factors1 = factors0\<lparr>
                       temporal := calculateTemporalRisk currentFeatures profile,
                       behavioral := calculateBehavioralRisk currentFeatures profile,
                       consistency := calculateConsistencyRisk currentFeatures profile,
                       deviation := calculateDeviationRisk currentFeatures profile,
                       velocity := calculateVelocityRisk currentFeatures profile \<rparr>
                 in \<lparr> finalScore = calculateWeightedScore factors1, factors = factors1,
                      confidence = calculateConfidence now profile \<rparr>)))"

section \<open>Baseline store (\<open>UserManager.updateBiometricProfile\<close>)\<close>

text \<open>
  \<open>summarize\<close> is the first half of \<open>updateBiometricProfile\<close>, which computes
  \<open>newSample\<close>.  Its averages divide by the length without a guard: an empty array
  gives \<open>0 / 0\<close>.  The new sample has no \<open>holdVelocityVariance\<close>.  \<open>now\<close> is
  \<open>new Date()\<close>.
\<close>

definition summarize :: "int \<Rightarrow> BiometricFeatures \<Rightarrow> BiometricSampleSummary" where
  "summarize now features =
     (let hs = map Num (holdTimes features);
          fs = map Num (flightTimes features);
          avgHold = jdiv (jsum hs) (Num (real (length hs)));
          avgFlight = jdiv (jsum fs) (Num (real (length fs)));
          holdVar = jdiv (jsum (map (\<lambda>val. jmul (jsub val avgHold) (jsub val avgHold)) hs))
                      (Num (real (length hs)));
          flightVar = jdiv (jsum (map (\<lambda>val. jmul (jsub val avgFlight) (jsub val avgFlight)) fs))
                        (Num (real (length fs)))
      in \<lparr> avgHoldTime = avgHold, avgFlightTime = avgFlight, holdTimeVariance = holdVar,
           flightTimeVariance = flightVar, smp_errorRate = Num (errorRate features),
           smp_typingSpeed = Num (typingSpeed features), holdVelocityVariance = None,
           smp_timestamp = now \<rparr>)"

definition updateBiometricProfile ::
    "int \<Rightarrow> string \<Rightarrow> BiometricFeatures \<Rightarrow> (string \<rightharpoonup> BiometricProfile)
     \<Rightarrow> bool \<times> (string \<rightharpoonup> BiometricProfile)" where
  "updateBiometricProfile now uid features profiles =
     (case profiles uid of
        None \<Rightarrow> (False, profiles)
      | Some profile \<Rightarrow>
          (let pushed = samples profile @ [summarize now features];
               kept = (if length pushed > 50 then tl pushed else pushed)
           in (True, profiles(uid \<mapsto> profile\<lparr> samples := kept, lastUpdated := now \<rparr>))))"

section \<open>Challenge lifecycle manager (\<open>ChallengeManager\<close>)\<close>

text \<open>
  Strings are ASCII strings.  An answer that is a number is held as its decimal text,
  which is what \<open>answer.toString()\<close> gives.
\<close>

record ChallengeData =
  ch_id :: string
  ch_userId :: string
  ch_type :: string
  question :: string
  answer :: string
  hints :: "string list"
  ch_createdAt :: int
  expiresAt :: int
  attempts :: int
  maxAttempts :: int
  completed :: bool

text \<open>
  The result objects of \<open>verifyChallenge\<close>: \<open>{valid: false, error, attemptsRemaining?}\<close>
  and \<open>{valid: true, userId, challengeType, attempts}\<close>.
\<close>

datatype VerifyResult =
    Invalid string "int option"
  | Valid string string int

definition isSpace :: "char \<Rightarrow> bool" where
  "isSpace c = ((of_char c :: nat) \<in> set [9, 10, 11, 12, 13, 32])"

definition toLowerChar :: "char \<Rightarrow> char" where
  "toLowerChar c =
     (case map_of (zip ''ABCDEFGHIJKLMNOPQRSTUVWXYZ'' ''abcdefghijklmnopqrstuvwxyz'') c of
        None \<Rightarrow> c
      | Some l \<Rightarrow> l)"

definition toLowerCase :: "string \<Rightarrow> string" where
  "toLowerCase s = map toLowerChar s"

definition trim :: "string \<Rightarrow> string" where
  "trim s = rev (dropWhile isSpace (rev (dropWhile isSpace s)))"

subsection \<open>Fuzzy matching\<close>

text \<open>\<open>[a-z0-9]\<close>, and \<open>\w\<close>, the word characters of the regular expressions.\<close>

definition isLowerAlnum :: "char \<Rightarrow> bool" where
  "isLowerAlnum c =
     ((97 \<le> (of_char c :: nat) \<and> (of_char c :: nat) \<le> 122) \<or>
      (48 \<le> (of_char c :: nat) \<and> (of_char c :: nat) \<le> 57))"

definition isWordChar :: "char \<Rightarrow> bool" where
  "isWordChar c =
     (isLowerAlnum c \<or> (65 \<le> (of_char c :: nat) \<and> (of_char c :: nat) \<le> 90) \<or> c = CHR ''_'')"

definition stopWords :: "string list" where
  "stopWords =
     [''the'', ''a'', ''an'', ''and'', ''or'', ''but'', ''in'', ''on'', ''at'', ''to'',
      ''for'', ''of'', ''with'', ''by'']"

text \<open>
  \<open>replace(/\b(the|a|...|by)\b/g, "")\<close>: a match starts and ends at a word boundary
  and consists of word characters, so it is a whole maximal run of word characters;
  such a run is deleted when it is one of the listed words.  The first argument is the
  run read so far.
\<close>

fun dropStopWords :: "string \<Rightarrow> string \<Rightarrow> string" where
  "dropStopWords w [] = (if w \<in> set stopWords then [] else w)"
| "dropStopWords w (c # cs) =
     (if isWordChar c then dropStopWords (w @ [c]) cs
      else (if w \<in> set stopWords then [] else w) @ c # dropStopWords [] cs)"

text \<open>\<open>replace(/\s+/g, " ")\<close>\<close>

fun collapseSpaces :: "bool \<Rightarrow> string \<Rightarrow> string" where
  "collapseSpaces inRun [] = []"
| "collapseSpaces inRun (c # cs) =
     (if isSpace c then (if inRun then collapseSpaces True cs else CHR '' '' # collapseSpaces True cs)
      else c # collapseSpaces False cs)"

definition fuzzy_normalize :: "string \<Rightarrow> string" where
  "fuzzy_normalize str =
     trim (collapseSpaces False
       (dropStopWords [] (filter (\<lambda>c. isLowerAlnum c \<or> isSpace c) str)))"

text \<open>\<open>hay.includes(needle)\<close>\<close>

fun str_includes :: "string \<Rightarrow> string \<Rightarrow> bool" where
  "str_includes [] needle = (needle = [])"
| "str_includes (c # cs) needle = (take (length needle) (c # cs) = needle \<or> str_includes cs needle)"

text \<open>
  One row of the matrix of \<open>levenshteinDistance\<close> after its first entry, from the row
  above and the entry to the left.
\<close>

fun levRow :: "char \<Rightarrow> string \<Rightarrow> nat list \<Rightarrow> nat \<Rightarrow> nat list" where
  "levRow ai (bj # bs) (diag # up # rowAbove) left =
     (let cost = (if ai = bj then 0 else 1);
          v = min (min (up + 1) (left + 1)) (diag + cost)
      in v # levRow ai bs (up # rowAbove) v)"
| "levRow ai _ _ _ = []"

fun levRows :: "string \<Rightarrow> string \<Rightarrow> nat list \<Rightarrow> nat \<Rightarrow> nat list" where
  "levRows [] b rowAbove i = rowAbove"
| "levRows (ai # as) b rowAbove i = levRows as b (i # levRow ai b rowAbove i) (Suc i)"

definition levenshteinDistance :: "string \<Rightarrow> string \<Rightarrow> nat" where
  "levenshteinDistance a b = last (levRows a b [0..<Suc (length b)] 1)"

definition fuzzyMatch :: "string \<Rightarrow> string \<Rightarrow> bool" where
  "fuzzyMatch solution answer0 =
     (let normalizedSolution = fuzzy_normalize solution;
          normalizedAnswer = fuzzy_normalize answer0
      in if normalizedSolution = normalizedAnswer then True
         else if str_includes normalizedSolution normalizedAnswer \<or>
                 str_includes normalizedAnswer normalizedSolution then True
         else (let distance = levenshteinDistance normalizedSolution normalizedAnswer;
                   maxLength = max (length normalizedSolution) (length normalizedAnswer);
                   similarity = 1 - real distance / real (if maxLength = 0 then 1 else maxLength)
               in similarity \<ge> 0.8))"

subsection \<open>Verification\<close>

text \<open>\<open>a === b\<close> on numbers.\<close>

definition jeq :: "jsnum \<Rightarrow> jsnum \<Rightarrow> bool" where
  "jeq a b = (if isNaN a then False else a = b)"

text \<open>
  \<open>verifySolution\<close>.  The built-in \<open>parseFloat\<close> is a parameter: a function from the
  text to the number it reads, \<open>NaN\<close> when it reads none.
\<close>

definition verifySolution :: "(string \<Rightarrow> jsnum) \<Rightarrow> ChallengeData \<Rightarrow> string \<Rightarrow> bool" where
  "verifySolution parseFloat challenge solution =
     (let normalizedSolution = trim (toLowerCase solution);
          normalizedAnswer = trim (toLowerCase (answer challenge))
      in if ch_type challenge = ''math''
           then jeq (parseFloat normalizedSolution) (parseFloat normalizedAnswer)
         else if ch_type challenge \<in> set [''pattern'', ''memory'', ''captcha'']
           then normalizedSolution = normalizedAnswer
         else if ch_type challenge = ''security_questions''
           then fuzzyMatch normalizedSolution normalizedAnswer
         else normalizedSolution = normalizedAnswer)"

text \<open>
  \<open>verifyChallenge\<close> on the map of challenges; \<open>now\<close> is \<open>new Date()\<close>.  The challenge
  object is mutated in place, which is an update of the map.
\<close>

definition verifyChallenge ::
    "(string \<Rightarrow> jsnum) \<Rightarrow> int \<Rightarrow> string \<Rightarrow> string \<Rightarrow> (string \<rightharpoonup> ChallengeData)
     \<Rightarrow> VerifyResult \<times> (string \<rightharpoonup> ChallengeData)" where
  "verifyChallenge parseFloat now challengeId solution chs =
     (case chs challengeId of
        None \<Rightarrow> (Invalid ''Challenge not found or expired'' None, chs)
      | Some challenge \<Rightarrow>
          if now > expiresAt challenge then
            (Invalid ''Challenge expired'' None, chs(challengeId := None))
          else if completed challenge then
            (Invalid ''Challenge already completed'' None, chs)
          else if attempts challenge \<ge> maxAttempts challenge then
            (Invalid ''Maximum attempts exceeded'' None, chs(challengeId := None))
          else
            (let challenge1 = challenge\<lparr> attempts := attempts challenge + 1 \<rparr>
             in if verifySolution parseFloat challenge1 solution then
                  (Valid (ch_userId challenge1) (ch_type challenge1) (attempts challenge1),
                   chs(challengeId \<mapsto> challenge1\<lparr> completed := True \<rparr>))
                else
                  (Invalid ''Incorrect solution''
                     (Some (maxAttempts challenge1 - attempts challenge1)),
                   chs(challengeId \<mapsto> challenge1))))"

definition cleanupExpiredChallenges ::
    "int \<Rightarrow> (string \<rightharpoonup> ChallengeData) \<Rightarrow> (string \<rightharpoonup> ChallengeData)" where
  "cleanupExpiredChallenges now chs =
     (\<lambda>k. case chs k of
             None \<Rightarrow> None
           | Some challenge \<Rightarrow> (if now > expiresAt challenge then None else Some challenge))"

text \<open>
  What \<open>createChallenge\<close> draws at random: the identifier (a UUID), the type when none is
  given, and the question, answer and hints of the generated challenge.
\<close>

record Drawn =
  d_id :: string
  d_type :: string
  d_question :: string
  d_answer :: string
  d_hints :: "string list"

record ChallengeView =
  v_id :: string
  v_type :: string
  v_question :: string
  v_hints :: "string list"
  expiresIn :: int

definition createChallenge ::
    "Drawn \<Rightarrow> int \<Rightarrow> string \<Rightarrow> (string \<rightharpoonup> ChallengeData)
     \<Rightarrow> ChallengeView \<times> (string \<rightharpoonup> ChallengeData)" where
  "createChallenge d now uid chs =
     (let challengeData =
            \<lparr> ch_id = d_id d, ch_userId = uid, ch_type = d_type d, question = d_question d,
              answer = d_answer d, hints = d_hints d, ch_createdAt = now,
              expiresAt = now + 5 * 60 * 1000, attempts = 0, maxAttempts = 3,
              completed = False \<rparr>
      in (\<lparr> v_id = d_id d, v_type = d_type d, v_question = d_question d,
            v_hints = d_hints d, expiresIn = 300 \<rparr>,
          cleanupExpiredChallenges now (chs(d_id d \<mapsto> challengeData))))"

section \<open>Auth orchestrator (\<open>login\<close> of the auth controller)\<close>

record LoginBody =
  username :: string
  password :: string
  body_riskScore :: real
  features :: BiometricFeatures

record ServerState =
  biometricProfiles :: "string \<rightharpoonup> BiometricProfile"
  challenges :: "string \<rightharpoonup> ChallengeData"

text \<open>
  The JSON response without its message text.  A session token is represented by the
  user id and the risk score of its payload.
\<close>

record LoginResponse =
  status :: nat
  success :: bool
  action :: Action
  sessionToken :: "(string \<times> jsnum) option"
  resp_challengeId :: "string option"
  resp_riskScore :: jsnum

text \<open>The numeric and length constraints of \<open>loginSchema\<close>.\<close>

definition loginSchema :: "LoginBody \<Rightarrow> bool" where
  "loginSchema body =
     (3 \<le> length (username body) \<and> length (username body) \<le> 50 \<and>
      6 \<le> length (password body) \<and> length (password body) \<le> 100 \<and>
      0 \<le> body_riskScore body \<and> body_riskScore body \<le> 1 \<and>
      0 \<le> errorRate (features body) \<and> errorRate (features body) \<le> 1 \<and>
      0 \<le> typingSpeed (features body))"

text \<open>
  \<open>login\<close>.  The credential check \<open>UserManager.validateUser\<close> (bcrypt) is a parameter:
  it gives the id of the user when the password is right.  A schema error is answered
  with status 400, a failed credential check with status 500, both as \<open>DENY\<close>.
\<close>

definition login ::
    "(string \<Rightarrow> string \<Rightarrow> string option) \<Rightarrow> Drawn \<Rightarrow> int \<Rightarrow> LoginBody \<Rightarrow> ServerState
     \<Rightarrow> LoginResponse \<times> ServerState" where
  "login validateUser d now body st =
     (if \<not> loginSchema body then
        (\<lparr> status = 400, success = False, action = DENY, sessionToken = None,
           resp_challengeId = None, resp_riskScore = Num 1 \<rparr>, st)
      else case validateUser (trim (username body)) (password body) of
        None \<Rightarrow>
          (\<lparr> status = 500, success = False, action = DENY, sessionToken = None,
             resp_challengeId = None, resp_riskScore = Num 1 \<rparr>, st)
      | Some uid \<Rightarrow>
          (let riskAnalysis =
                 calculateRisk now (features body) (biometricProfiles st uid) (body_riskScore body);
               st1 = st\<lparr> biometricProfiles :=
                        snd (updateBiometricProfile now uid (features body) (biometricProfiles st)) \<rparr>
           in if jlt (finalScore riskAnalysis) (Num 0.3) then
                (\<lparr> status = 200, success = True, action = GRANT,
                   sessionToken = Some (uid, finalScore riskAnalysis),
                   resp_challengeId = None, resp_riskScore = finalScore riskAnalysis \<rparr>, st1)
              else if jlt (finalScore riskAnalysis) (Num 0.7) then
                (case createChallenge d now uid (challenges st1) of
                   (challenge, chs) \<Rightarrow>
                     (\<lparr> status = 200, success = True, action = STEP_UP, sessionToken = None,
                        resp_challengeId = Some (v_id challenge),
                        resp_riskScore = finalScore riskAnalysis \<rparr>,
                      st1\<lparr> challenges := chs \<rparr>))
              else
                (\<lparr> status = 200, success = False, action = DENY, sessionToken = None,
                   resp_challengeId = None, resp_riskScore = finalScore riskAnalysis \<rparr>, st1)))"

section \<open>Sequences of verification calls\<close>

text \<open>
  Consecutive \<open>verifyChallenge\<close> calls on one challenge id, each with its clock reading
  and its solution: the results in order, and the map of challenges after the last call.
\<close>

fun verifyCalls ::
    "(string \<Rightarrow> jsnum) \<Rightarrow> string \<Rightarrow> (int \<times> string) list \<Rightarrow> (string \<rightharpoonup> ChallengeData)
     \<Rightarrow> VerifyResult list \<times> (string \<rightharpoonup> ChallengeData)" where
  "verifyCalls parseFloat cid [] chs = ([], chs)"
| "verifyCalls parseFloat cid ((now, solution) # calls) chs =
     (case verifyChallenge parseFloat now cid solution chs of
        (r, chs1) \<Rightarrow>
          (case verifyCalls parseFloat cid calls chs1 of
             (rs, chs2) \<Rightarrow> (r # rs, chs2)))"

section \<open>Ranges of values\<close>

text \<open>A number of the interval \<open>[0, 1]\<close>.\<close>

definition in01 :: "jsnum \<Rightarrow> bool" where
  "in01 x = (case x of Num r \<Rightarrow> 0 \<le> r \<and> r \<le> 1 | _ \<Rightarrow> False)"

text \<open>A factor that \<open>calculateWeightedScore\<close> leaves out or that lies in \<open>[0, 1]\<close>.\<close>

definition ok01 :: "jsnum \<Rightarrow> bool" where
  "ok01 x = (case x of Num r \<Rightarrow> 0 \<le> r \<and> r \<le> 1 | NaN \<Rightarrow> True | _ \<Rightarrow> False)"

text \<open>A value that is \<open>NaN\<close>, \<open>+Infinity\<close> or a number that is not negative.\<close>

definition nn :: "jsnum \<Rightarrow> bool" where
  "nn x = (case x of Num r \<Rightarrow> 0 \<le> r | NInf \<Rightarrow> False | _ \<Rightarrow> True)"

text \<open>
  The \<open>holdRisk\<close> of \<open>calculateTemporalRisk\<close> as a function of the session's mean hold
  time \<open>c\<close> and the historical mean \<open>a\<close>.
\<close>

definition holdRisk :: "real \<Rightarrow> real \<Rightarrow> jsnum" where
  "holdRisk c a = jmin (jmul (jdiv (jabs (jsub (Num c) (Num a))) (Num a)) (Num 2)) (Num 1)"

section \<open>Example inputs\<close>

definition captcha0 :: ChallengeData where
  "captcha0 =
     \<lparr> ch_id = ''c1'', ch_userId = ''u1'', ch_type = ''captcha'',
       question = ''Type the following characters: K7M2P'', answer = ''K7M2P'', hints = [],
       ch_createdAt = 0, expiresAt = 300000, attempts = 0, maxAttempts = 3,
       completed = False \<rparr>"

definition sampleOf :: "real \<Rightarrow> real \<Rightarrow> real \<Rightarrow> BiometricSampleSummary" where
  "sampleOf hold flight speed =
     \<lparr> avgHoldTime = Num hold, avgFlightTime = Num flight, holdTimeVariance = Num 0,
       flightTimeVariance = Num 0, smp_errorRate = Num 0, smp_typingSpeed = Num speed,
       holdVelocityVariance = None, smp_timestamp = 0 \<rparr>"

definition profileOf :: "int \<Rightarrow> BiometricSampleSummary list \<Rightarrow> BiometricProfile" where
  "profileOf created ss = \<lparr> userId = ''u1'', createdAt = created, lastUpdated = created, samples = ss \<rparr>"

definition profile0 :: BiometricProfile where
  "profile0 = profileOf 0 [sampleOf 99 99 99, sampleOf 101 101 101]"

definition sessionOf :: "real list \<Rightarrow> real list \<Rightarrow> real \<Rightarrow> real \<Rightarrow> BiometricFeatures" where
  "sessionOf hs fs err speed =
     \<lparr> holdTimes = hs, flightTimes = fs, errorRate = err, typingSpeed = speed, timestamp = 0 \<rparr>"

definition session0 :: BiometricFeatures where
  "session0 = sessionOf [200, 200] [200, 200] 1 400"

definition session1 :: BiometricFeatures where
  "session1 = sessionOf [100] [100] 0 100"

definition state0 :: ServerState where
  "state0 = \<lparr> biometricProfiles = [''u1'' \<mapsto> profile0], challenges = Map.empty \<rparr>"

definition validateUser0 :: "string \<Rightarrow> string \<Rightarrow> string option" where
  "validateUser0 name pw =
     (if name = ''alice'' \<and> pw = ''correct horse'' then Some ''u1'' else None)"

definition drawn0 :: Drawn where
  "drawn0 =
     \<lparr> d_id = ''c1'', d_type = ''captcha'', d_question = ''Type the following characters: K7M2P'',
       d_answer = ''K7M2P'', d_hints = [] \<rparr>"

definition body0 :: "real \<Rightarrow> LoginBody" where
  "body0 r =
     \<lparr> username = ''alice'', password = ''correct horse'', body_riskScore = r,
       features = session0 \<rparr>"

text \<open>
  A user whose profile has no samples (the state after \<open>resetBiometricProfile\<close>), and
  two login requests of that user that pass \<open>loginSchema\<close> and carry negative timings,
  which the schema \<open>z.array(z.number())\<close> accepts: one with a hold and a flight time
  of -1000, one with a hold time of -100.  The states after them are the states that
  \<open>login\<close> leaves at time 1000.
\<close>

definition emptyState :: ServerState where
  "emptyState = \<lparr> biometricProfiles = [''u1'' \<mapsto> profileOf 0 []], challenges = Map.empty \<rparr>"

definition bodyOf :: "real \<Rightarrow> BiometricFeatures \<Rightarrow> LoginBody" where
  "bodyOf r f =
     \<lparr> username = ''alice'', password = ''correct horse'', body_riskScore = r, features = f \<rparr>"

definition negativeLogin :: LoginBody where
  "negativeLogin = bodyOf 0.5 (sessionOf [- 1000] [- 1000] 0 100)"

definition afterNegativeLogin :: ServerState where
  "afterNegativeLogin = snd (login validateUser0 drawn0 1000 negativeLogin emptyState)"

definition negativeHoldLogin :: LoginBody where
  "negativeHoldLogin = bodyOf 0.5 (sessionOf [- 100] [100] 0 100)"

definition afterNegativeHoldLogin :: ServerState where
  "afterNegativeHoldLogin = snd (login validateUser0 drawn0 1000 negativeHoldLogin emptyState)"

section \<open>Challenge lifecycle: exhaustion and expiry\<close>

lemmas string_defs = toLowerCase_def toLowerChar_def trim_def isSpace_def

lemma verifySolution_attempts [simp]:
  "verifySolution pf (c\<lparr> attempts := n \<rparr>) s = verifySolution pf c s"
  by (simp add: verifySolution_def)

lemma verify_incorrect:
  assumes "chs cid = Some c" "now \<le> expiresAt c" "\<not> completed c" "attempts c < maxAttempts c"
    and "\<not> verifySolution pf c s"
  shows "verifyChallenge pf now cid s chs =
     (Invalid ''Incorrect solution'' (Some (maxAttempts c - (attempts c + 1))),
      chs(cid \<mapsto> c\<lparr> attempts := attempts c + 1 \<rparr>))"
  using assms by (simp add: verifyChallenge_def Let_def)

lemma verify_exceeded:
  assumes "chs cid = Some c" "now \<le> expiresAt c" "\<not> completed c" "attempts c \<ge> maxAttempts c"
  shows "verifyChallenge pf now cid s chs =
     (Invalid ''Maximum attempts exceeded'' None, chs(cid := None))"
  using assms by (simp add: verifyChallenge_def Let_def)

lemma verify_not_found:
  assumes "chs cid = None"
  shows "verifyChallenge pf now cid s chs = (Invalid ''Challenge not found or expired'' None, chs)"
  using assms by (simp add: verifyChallenge_def)

text \<open>
  Claim C1, as amended.  For every stored challenge with no attempt made, \<open>maxAttempts = 3\<close>
  and not completed, and verification calls made no later than \<open>expiresAt\<close>: three
  consecutive calls with incorrect solutions each return \<open>Incorrect solution\<close>, with
  \<open>attemptsRemaining\<close> 2, 1 and 0, and leave the challenge stored with three attempts;
  a fourth call, whatever its solution, returns \<open>Maximum attempts exceeded\<close> and deletes
  the challenge; a fifth call returns \<open>Challenge not found or expired\<close>.
\<close>

theorem C1_exhaustion_amended:
  assumes found: "chs cid = Some c"
    and fresh: "attempts c = 0" "maxAttempts c = 3" "\<not> completed c"
    and live: "t1 \<le> expiresAt c" "t2 \<le> expiresAt c" "t3 \<le> expiresAt c" "t4 \<le> expiresAt c"
    and wrong: "\<not> verifySolution pf c s1" "\<not> verifySolution pf c s2" "\<not> verifySolution pf c s3"
  shows "verifyCalls pf cid [(t1, s1), (t2, s2), (t3, s3)] chs =
           ([Invalid ''Incorrect solution'' (Some 2), Invalid ''Incorrect solution'' (Some 1),
             Invalid ''Incorrect solution'' (Some 0)],
            chs(cid \<mapsto> c\<lparr> attempts := 3 \<rparr>)) \<and>
         verifyCalls pf cid [(t1, s1), (t2, s2), (t3, s3), (t4, s4), (t5, s5)] chs =
           ([Invalid ''Incorrect solution'' (Some 2), Invalid ''Incorrect solution'' (Some 1),
             Invalid ''Incorrect solution'' (Some 0), Invalid ''Maximum attempts exceeded'' None,
             Invalid ''Challenge not found or expired'' None],
            chs(cid := None))"
proof -
  let ?c1 = "c\<lparr> attempts := 1 \<rparr>" and ?c2 = "c\<lparr> attempts := 2 \<rparr>" and ?c3 = "c\<lparr> attempts := 3 \<rparr>"
  let ?m1 = "chs(cid \<mapsto> ?c1)" and ?m2 = "chs(cid \<mapsto> ?c2)" and ?m3 = "chs(cid \<mapsto> ?c3)"
  have v1: "verifyChallenge pf t1 cid s1 chs = (Invalid ''Incorrect solution'' (Some 2), ?m1)"
    using verify_incorrect [of chs cid c t1 pf s1] found fresh live wrong by simp
  have v2: "verifyChallenge pf t2 cid s2 ?m1 = (Invalid ''Incorrect solution'' (Some 1), ?m2)"
    using verify_incorrect [of ?m1 cid ?c1 t2 pf s2] fresh live wrong by simp
  have v3: "verifyChallenge pf t3 cid s3 ?m2 = (Invalid ''Incorrect solution'' (Some 0), ?m3)"
    using verify_incorrect [of ?m2 cid ?c2 t3 pf s3] fresh live wrong by simp
  have v4: "verifyChallenge pf t4 cid s4 ?m3 =
      (Invalid ''Maximum attempts exceeded'' None, chs(cid := None))"
    using verify_exceeded [of ?m3 cid ?c3 t4 pf s4] fresh live by simp
  have v5: "verifyChallenge pf t5 cid s5 (chs(cid := None)) =
      (Invalid ''Challenge not found or expired'' None, chs(cid := None))"
    by (rule verify_not_found) simp
  show ?thesis by (simp add: v1 v2 v3 v4 v5)
qed

text \<open>
  The amended claim C1 at a CAPTCHA challenge with answer \<open>K7M2P\<close>: three wrong
  solutions, then two calls with the right one.
\<close>

theorem C1_exhaustion_amended_witness:
  "\<forall>pf. verifyCalls pf ''c1''
       [(1000, ''wrong''), (2000, ''k7m2q''), (3000, ''k7m2''), (4000, ''K7M2P''), (5000, ''K7M2P'')]
       [''c1'' \<mapsto> captcha0] =
     ([Invalid ''Incorrect solution'' (Some 2), Invalid ''Incorrect solution'' (Some 1),
       Invalid ''Incorrect solution'' (Some 0), Invalid ''Maximum attempts exceeded'' None,
       Invalid ''Challenge not found or expired'' None], Map.empty)"
proof
  fix pf
  have w: "\<not> verifySolution pf captcha0 ''wrong''" "\<not> verifySolution pf captcha0 ''k7m2q''"
      "\<not> verifySolution pf captcha0 ''k7m2''"
    by (simp_all add: verifySolution_def captcha0_def string_defs)
  from C1_exhaustion_amended [where chs = "[''c1'' \<mapsto> captcha0]" and cid = "''c1''"
      and c = captcha0 and ?t1.0 = 1000 and ?t2.0 = 2000 and ?t3.0 = 3000 and ?t4.0 = 4000
      and ?t5.0 = 5000 and pf = pf and ?s1.0 = "''wrong''" and ?s2.0 = "''k7m2q''"
      and ?s3.0 = "''k7m2''" and ?s4.0 = "''K7M2P''" and ?s5.0 = "''K7M2P''"] w
  show "verifyCalls pf ''c1''
       [(1000, ''wrong''), (2000, ''k7m2q''), (3000, ''k7m2''), (4000, ''K7M2P''), (5000, ''K7M2P'')]
       [''c1'' \<mapsto> captcha0] =
     ([Invalid ''Incorrect solution'' (Some 2), Invalid ''Incorrect solution'' (Some 1),
       Invalid ''Incorrect solution'' (Some 0), Invalid ''Maximum attempts exceeded'' None,
       Invalid ''Challenge not found or expired'' None], Map.empty)"
    by (simp add: captcha0_def)
qed

text \<open>
  Claim C1 as stated fails: on the third incorrect call the code returns
  \<open>Incorrect solution\<close> with \<open>attemptsRemaining = 0\<close>, not the exhausted result, and keeps
  the challenge; the fourth call returns \<open>Maximum attempts exceeded\<close>, not the
  not-found result.
\<close>

theorem C1_exhaustion_counterexample:
  "fst (verifyCalls (\<lambda>s. NaN) ''c1'' [(1000, ''wrong''), (2000, ''wrong''), (3000, ''wrong'')]
          [''c1'' \<mapsto> captcha0]) =
     [Invalid ''Incorrect solution'' (Some 2), Invalid ''Incorrect solution'' (Some 1),
      Invalid ''Incorrect solution'' (Some 0)] \<and>
   snd (verifyCalls (\<lambda>s. NaN) ''c1'' [(1000, ''wrong''), (2000, ''wrong''), (3000, ''wrong'')]
          [''c1'' \<mapsto> captcha0]) ''c1'' =
     Some (captcha0\<lparr> attempts := 3 \<rparr>) \<and>
   fst (verifyCalls (\<lambda>s. NaN) ''c1''
          [(1000, ''wrong''), (2000, ''wrong''), (3000, ''wrong''), (4000, ''wrong'')]
          [''c1'' \<mapsto> captcha0]) ! 3 =
     Invalid ''Maximum attempts exceeded'' None"
  by (simp add: verifyChallenge_def verifySolution_def captcha0_def string_defs)

text \<open>
  Claim C7.  For every stored challenge and every verification call made strictly after
  its \<open>expiresAt\<close>, whatever the solution, the completion flag and the attempts made, the
  result is \<open>Challenge expired\<close> and the challenge is deleted; the result is never the
  accepting one.
\<close>

theorem C7_expired_rejected:
  assumes "chs cid = Some c" and "now > expiresAt c"
  shows "verifyChallenge pf now cid solution chs =
     (Invalid ''Challenge expired'' None, chs(cid := None))"
  using assms by (simp add: verifyChallenge_def)

text \<open>Claim C7 at the correct solution, one millisecond after the expiry.\<close>

theorem C7_expired_rejected_witness:
  "\<forall>pf. verifySolution pf captcha0 ''k7m2p'' \<and>
     verifyChallenge pf 300001 ''c1'' ''k7m2p'' [''c1'' \<mapsto> captcha0] =
       (Invalid ''Challenge expired'' None, Map.empty)"
proof
  fix pf
  have "verifyChallenge pf 300001 ''c1'' ''k7m2p'' [''c1'' \<mapsto> captcha0] =
       (Invalid ''Challenge expired'' None, [''c1'' \<mapsto> captcha0](''c1'' := None))"
    using C7_expired_rejected [where chs = "[''c1'' \<mapsto> captcha0]" and cid = "''c1''"
        and c = captcha0 and now = 300001 and pf = pf and solution = "''k7m2p''"]
    by (simp add: captcha0_def)
  moreover have "verifySolution pf captcha0 ''k7m2p''"
    by (simp add: verifySolution_def captcha0_def string_defs)
  ultimately show "verifySolution pf captcha0 ''k7m2p'' \<and>
     verifyChallenge pf 300001 ''c1'' ''k7m2p'' [''c1'' \<mapsto> captcha0] =
       (Invalid ''Challenge expired'' None, Map.empty)" by simp
qed

section \<open>Local risk estimator: the fallback\<close>

text \<open>
  Claim C9.  For every feature vector, whenever the estimator is not ready
  (\<open>isReady\<close> is false: the ready flag is unset or there is no model) or has no
  normalisation parameters, \<open>calculateRisk\<close> returns exactly the fallback: risk score
  0.5, confidence 0.1, recommendation \<open>STEP_UP\<close>, with the features it was given.
\<close>

theorem C9_not_ready_fallback:
  assumes "\<not> isReady rc \<or> normalizeParams rc = None"
  shows "local_calculateRisk rc fs =
     \<lparr> riskScore = Num 0.5, rp_confidence = 0.1, recommendation = STEP_UP, rp_features = fs \<rparr>"
  using assms by (auto simp: local_calculateRisk_def isReady_def)

text \<open>Claim C9 at an estimator whose model has not been loaded.\<close>

theorem C9_not_ready_fallback_witness:
  "\<not> isReady \<lparr> model = None, isModelReady = False, normalizeParams = None \<rparr> \<and>
   local_calculateRisk \<lparr> model = None, isModelReady = False, normalizeParams = None \<rparr>
       [Num 95, Num 60, Num 12, Num 15, NaN, Num 2, Num 88, Num 24] =
     \<lparr> riskScore = Num 0.5, rp_confidence = 0.1, recommendation = STEP_UP,
       rp_features = [Num 95, Num 60, Num 12, Num 15, NaN, Num 2, Num 88, Num 24] \<rparr>"
proof -
  have h: "\<not> isReady \<lparr> model = None, isModelReady = False, normalizeParams = None \<rparr>"
    by (simp add: isReady_def)
  then have "\<not> isReady \<lparr> model = None, isModelReady = False, normalizeParams = None \<rparr> \<or>
     normalizeParams \<lparr> model = None, isModelReady = False, normalizeParams = None \<rparr> = None"
    by simp
  from C9_not_ready_fallback [OF this] h show ?thesis by simp
qed

section \<open>Feature extractor: flight times and error rate\<close>

lemmas capture_defs = processEvents_def captureKeyDown_def captureKeyUp_def updateSession_def
  calculateTypingSpeed_def calculateErrorRate_def calculateConsistencyScore_def
  capture_calculateVariance_def isModifierKey_def modifierKeys_def newCapture_def
  initializeSession_def

text \<open>
  A release that follows the press of the same key records the hold time and no flight
  time, whatever was released before: the press has replaced the key's metrics by a
  record whose \<open>lastKeyUp\<close> is 0.
\<close>

lemma keyup_after_keydown:
  assumes "\<not> isModifierKey key" "key \<noteq> ''Backspace''"
  shows "sess_flightTimes (sessionData (captureKeyUp key t2 n2 (captureKeyDown key t1 n1 bc))) =
           sess_flightTimes (sessionData bc) \<and>
         sess_holdTimes (sessionData (captureKeyUp key t2 n2 (captureKeyDown key t1 n1 bc))) =
           sess_holdTimes (sessionData bc) @ [t2 - t1]"
  using assms
  by (simp add: captureKeyUp_def captureKeyDown_def updateSession_def calculateTypingSpeed_def
      calculateErrorRate_def calculateConsistencyScore_def Let_def)

text \<open>
  Claim C4 fails on the code.  Key \<open>a\<close> is pressed at 100 and released at 180, key \<open>b\<close>
  is pressed at 250 and released at 330: both hold times are recorded, and no flight
  time is, although the release of \<open>a\<close> precedes the press of \<open>b\<close> (the claim gives
  \<open>250 - 180 = 70\<close>).  A flight time is recorded only when a key is released twice
  without a press in between, and it is that key's press time minus its own previous
  release: \<open>100 - 180\<close> below.
\<close>

theorem C4_flight_time_not_recorded:
  "sess_holdTimes (sessionData (processEvents (newCapture 0)
     [KeyDown ''a'' 100 100, KeyUp ''a'' 180 180, KeyDown ''b'' 250 250, KeyUp ''b'' 330 330])) =
     [80, 80] \<and>
   sess_flightTimes (sessionData (processEvents (newCapture 0)
     [KeyDown ''a'' 100 100, KeyUp ''a'' 180 180, KeyDown ''b'' 250 250, KeyUp ''b'' 330 330])) =
     [] \<and>
   sess_flightTimes (sessionData (processEvents (newCapture 0)
     [KeyDown ''a'' 100 100, KeyUp ''a'' 180 180, KeyUp ''a'' 330 330])) = [- 80]"
  by (simp add: capture_defs Let_def)

text \<open>
  Claim C10.  In every state of the extractor, a \<open>Backspace\<close> key-down adds one to
  \<open>corrections\<close>, leaves \<open>totalKeystrokes\<close> as it is, and sets \<open>errorRate\<close> to
  \<open>corrections / totalKeystrokes * 100\<close>, or to 0 when \<open>totalKeystrokes\<close> is 0.  Some
  sequence of events gives an error rate above 100: one counted key followed by two
  \<open>Backspace\<close> presses gives 200.
\<close>

theorem C10_backspace_error_rate:
  "corrections (sessionData (captureKeyDown ''Backspace'' t now bc)) =
     corrections (sessionData bc) + 1 \<and>
   totalKeystrokes (sessionData (captureKeyDown ''Backspace'' t now bc)) =
     totalKeystrokes (sessionData bc) \<and>
   sess_errorRate (sessionData (captureKeyDown ''Backspace'' t now bc)) =
     (if totalKeystrokes (sessionData bc) = 0 then 0
      else real (corrections (sessionData bc) + 1) / real (totalKeystrokes (sessionData bc)) * 100) \<and>
   sess_errorRate (sessionData (processEvents (newCapture 0)
     [KeyDown ''a'' 100 100, KeyDown ''Backspace'' 180 180, KeyDown ''Backspace'' 250 250])) = 200 \<and>
   (\<exists>evs. sess_errorRate (sessionData (processEvents (newCapture 0) evs)) > 100)"
proof -
  have run: "sess_errorRate (sessionData (processEvents (newCapture 0)
      [KeyDown ''a'' 100 100, KeyDown ''Backspace'' 180 180, KeyDown ''Backspace'' 250 250])) = 200"
    by (simp add: capture_defs Let_def)
  then have "\<exists>evs. sess_errorRate (sessionData (processEvents (newCapture 0) evs)) > 100"
    by (intro exI [of _ "[KeyDown ''a'' 100 100, KeyDown ''Backspace'' 180 180,
          KeyDown ''Backspace'' 250 250]"]) simp
  moreover have "corrections (sessionData (captureKeyDown ''Backspace'' t now bc)) =
     corrections (sessionData bc) + 1"
    by (simp add: capture_defs Let_def)
  moreover have "totalKeystrokes (sessionData (captureKeyDown ''Backspace'' t now bc)) =
     totalKeystrokes (sessionData bc)"
    by (simp add: capture_defs Let_def)
  moreover have "sess_errorRate (sessionData (captureKeyDown ''Backspace'' t now bc)) =
     (if totalKeystrokes (sessionData bc) = 0 then 0
      else real (corrections (sessionData bc) + 1) / real (totalKeystrokes (sessionData bc)) * 100)"
    by (simp add: capture_defs Let_def)
  ultimately show ?thesis using run by blast
qed

section \<open>Risk fusion engine: cold start and the range of the factors\<close>

lemmas risk_defs = calculateRisk_def calculateWeightedScore_def entries_def weights_def
  calculateTemporalRisk_def calculateBehavioralRisk_def calculateConsistencyRisk_def
  calculateDeviationRisk_def calculateVelocityRisk_def calculateConfidence_def
  calculateZScore_def calculateStandardDeviation_def calculateVariance_def calculateAverage_def
  holdVelocityVariance_or0_def jsum_def jsub_def jgt_def

lemmas example_defs = session0_def session1_def sessionOf_def profile0_def profileOf_def
  sampleOf_def

text \<open>
  Claim C5.  For every feature vector and every client risk score, when there is no
  profile or the profile has no samples, the factors are exactly temporal 0.4,
  behavioral 0.4, consistency 0.5, deviation 0.3, velocity 0.3 and the client risk
  score, and the confidence is exactly 0.3.
\<close>

theorem C5_cold_start:
  assumes "userProfile = None \<or> (\<exists>p. userProfile = Some p \<and> samples p = [])"
  shows "factors (calculateRisk now f userProfile c) =
           \<lparr> temporal = Num 0.4, behavioral = Num 0.4, consistency = Num 0.5,
             deviation = Num 0.3, velocity = Num 0.3, client = Num c \<rparr> \<and>
         confidence (calculateRisk now f userProfile c) = Num 0.3"
  using assms by (auto simp: calculateRisk_def Let_def)

text \<open>Claim C5 without a profile, and with a profile that has no samples.\<close>

theorem C5_cold_start_witness:
  "factors (calculateRisk 1000 session0 None 0.25) =
           \<lparr> temporal = Num 0.4, behavioral = Num 0.4, consistency = Num 0.5,
             deviation = Num 0.3, velocity = Num 0.3, client = Num 0.25 \<rparr> \<and>
   confidence (calculateRisk 1000 session0 None 0.25) = Num 0.3 \<and>
   factors (calculateRisk 1000 session0 (Some (profileOf 0 [])) 0) =
           \<lparr> temporal = Num 0.4, behavioral = Num 0.4, consistency = Num 0.5,
             deviation = Num 0.3, velocity = Num 0.3, client = Num 0 \<rparr> \<and>
   confidence (calculateRisk 1000 session0 (Some (profileOf 0 [])) 0) = Num 0.3"
  using C5_cold_start [of None 1000 session0 "0.25"]
    C5_cold_start [of "Some (profileOf 0 [])" 1000 session0 0]
  by (simp add: profileOf_def)

subsection \<open>Closure of the value ranges under the arithmetic of the factors\<close>

lemma nn_jabs: "nn (jabs x)"
  by (cases x) (simp_all add: nn_def)

lemma nn_mul: "nn x \<Longrightarrow> 0 < k \<Longrightarrow> nn (jmul x (Num k))"
  by (cases x) (simp_all add: nn_def inf_signed_def)

lemma nn_divk: "nn x \<Longrightarrow> 0 < k \<Longrightarrow> nn (jdiv x (Num k))"
  by (cases x) (simp_all add: nn_def)

lemma nn_add: "nn x \<Longrightarrow> nn y \<Longrightarrow> nn (jadd x y)"
  by (cases x; cases y) (simp_all add: nn_def)

lemma nn_rel: "\<not> jlt a (Num 0) \<Longrightarrow> nn x \<Longrightarrow> nn (jdiv x a)"
  by (cases x; cases a) (simp_all add: nn_def)

lemma jgt_not_jlt: "jgt a (Num 0) \<Longrightarrow> \<not> jlt a (Num 0)"
  by (cases a) (simp_all add: jgt_def)

lemma ok01_min1: "nn x \<Longrightarrow> ok01 (jmin x (Num 1))"
  by (cases x) (simp_all add: nn_def ok01_def)

lemma ok01_avg2: "ok01 x \<Longrightarrow> ok01 y \<Longrightarrow> ok01 (jdiv (jadd x y) (Num 2))"
  by (cases x; cases y) (simp_all add: ok01_def)

lemma ok01_avg3: "ok01 x \<Longrightarrow> ok01 y \<Longrightarrow> ok01 z \<Longrightarrow> ok01 (jdiv (jadd (jadd x y) z) (Num 3))"
  by (cases x; cases y; cases z) (simp_all add: ok01_def)

lemma ok01_clamp:
  "\<not> jlt a (Num 0) \<Longrightarrow> 0 < k \<Longrightarrow> ok01 (jmin (jmul (jdiv (jabs x) a) (Num k)) (Num 1))"
  by (intro ok01_min1 nn_mul nn_rel nn_jabs)

subsection \<open>The factors and the unit interval\<close>

text \<open>
  \<open>calculateConsistencyRisk\<close>, \<open>calculateDeviationRisk\<close> and \<open>calculateVelocityRisk\<close>
  divide only by a value they have tested to be positive, and their results are left
  out (\<open>NaN\<close>) or lie in \<open>[0, 1]\<close> for every input.  \<open>calculateTemporalRisk\<close> and
  \<open>calculateBehavioralRisk\<close> divide by the historical mean without such a test: their
  results are in that range when the mean is not negative.
\<close>

lemma temporal_ok01:
  assumes "\<not> jlt (calculateAverage (map avgHoldTime (samples p))) (Num 0)"
    and "\<not> jlt (calculateAverage (map avgFlightTime (samples p))) (Num 0)"
  shows "ok01 (calculateTemporalRisk f p)"
  using assms by (simp add: calculateTemporalRisk_def Let_def ok01_avg2 ok01_clamp)

lemma behavioral_ok01:
  assumes "\<not> jlt (calculateAverage (map smp_typingSpeed (samples p))) (Num 0)"
  shows "ok01 (calculateBehavioralRisk f p)"
  using assms
  by (simp add: calculateBehavioralRisk_def Let_def ok01_avg2 ok01_clamp ok01_min1 nn_mul nn_jabs)

lemma consistency_ok01: "ok01 (calculateConsistencyRisk f p)"
proof -
  have r: "nn (if jgt a (Num 0) then jdiv (jabs x) a else Num 0)" for a x
    by (simp add: nn_rel nn_jabs jgt_not_jlt) (simp add: nn_def)
  show ?thesis
    unfolding calculateConsistencyRisk_def Let_def
    by (intro ok01_min1 nn_divk nn_add r) simp
qed

lemma deviation_ok01: "ok01 (calculateDeviationRisk f p)"
  unfolding calculateDeviationRisk_def Let_def
  by (intro ok01_avg3 ok01_min1 nn_divk nn_jabs) simp_all

lemma velocity_ok01: "ok01 (calculateVelocityRisk f p)"
proof (cases "length (holdTimes f) < 3 \<or> length (flightTimes f) < 3")
  case True
  then show ?thesis by (simp add: calculateVelocityRisk_def ok01_def)
next
  case False
  have r: "nn (if jgt a (Num 0) then jdiv (jabs x) a else Num 0.3)" for a x
    by (simp add: nn_rel nn_jabs jgt_not_jlt) (simp add: nn_def)
  from False have "calculateVelocityRisk f p =
      jmin (if jgt (calculateAverage (map holdVelocityVariance_or0 (samples p))) (Num 0)
            then jdiv (jabs (jsub (calculateVariance (map Num (velocities (holdTimes f))))
                        (calculateAverage (map holdVelocityVariance_or0 (samples p)))))
                   (calculateAverage (map holdVelocityVariance_or0 (samples p)))
            else Num 0.3) (Num 1)"
    by (simp add: calculateVelocityRisk_def Let_def)
  then show ?thesis by (simp only: ok01_min1 r)
qed

subsection \<open>The weighted score\<close>

lemma weights_pos: "map_of weights k = Some w \<Longrightarrow> 0 < w"
  by (simp add: weights_def split: if_splits)

text \<open>
  The loop keeps the weighted sum between 0 and the total weight, and never lowers the
  total weight.
\<close>

lemma step_inv:
  assumes "ok01 v" "0 \<le> a" "a \<le> b"
  shows "\<exists>a' b'. weightedStep (Num a, Num b) (k, v) = (Num a', Num b') \<and>
           0 \<le> a' \<and> a' \<le> b' \<and> b \<le> b'"
proof (cases "map_of weights k")
  case None
  with assms show ?thesis by simp
next
  case (Some w)
  then have w: "0 < w" by (rule weights_pos)
  show ?thesis
  proof (cases v)
    case (Num r)
    with assms have r: "0 \<le> r" "r \<le> 1" by (simp_all add: ok01_def)
    then have "r * w \<le> w" using w by (simp add: mult_left_le_one_le)
    moreover have "0 \<le> r * w" using r w by simp
    ultimately have "0 \<le> a + r * w" "a + r * w \<le> b + w" "b \<le> b + w"
      using assms w by linarith+
    then show ?thesis using Some Num w by simp
  qed (use assms Some in \<open>simp_all add: ok01_def\<close>)
qed

lemma client_step:
  assumes "in01 v" "0 \<le> a" "a \<le> b"
  shows "\<exists>a' b'. weightedStep (Num a, Num b) (''client'', v) = (Num a', Num b') \<and>
           0 \<le> a' \<and> a' \<le> b' \<and> 0 < b'"
proof -
  from assms obtain r where v: "v = Num r" "0 \<le> r" "r \<le> 1"
    by (cases v) (simp_all add: in01_def)
  have "r * (1 / 10) \<le> 1 / 10" using v by simp
  then show ?thesis using v assms by (simp add: weights_def)
qed

lemma weighted_in01:
  assumes "ok01 (temporal F)" "ok01 (behavioral F)" "ok01 (consistency F)" "ok01 (deviation F)"
    "ok01 (velocity F)" "in01 (client F)"
  shows "in01 (calculateWeightedScore F)"
proof -
  obtain a1 b1 where s1:
      "weightedStep (Num 0, Num 0) (''temporal'', temporal F) = (Num a1, Num b1)"
      "0 \<le> a1" "a1 \<le> b1"
    using step_inv [OF assms(1), of 0 0 "''temporal''"] by auto
  obtain a2 b2 where s2:
      "weightedStep (Num a1, Num b1) (''behavioral'', behavioral F) = (Num a2, Num b2)"
      "0 \<le> a2" "a2 \<le> b2"
    using step_inv [OF assms(2) s1(2,3), of "''behavioral''"] by auto
  obtain a3 b3 where s3:
      "weightedStep (Num a2, Num b2) (''consistency'', consistency F) = (Num a3, Num b3)"
      "0 \<le> a3" "a3 \<le> b3"
    using step_inv [OF assms(3) s2(2,3), of "''consistency''"] by auto
  obtain a4 b4 where s4:
      "weightedStep (Num a3, Num b3) (''deviation'', deviation F) = (Num a4, Num b4)"
      "0 \<le> a4" "a4 \<le> b4"
    using step_inv [OF assms(4) s3(2,3), of "''deviation''"] by auto
  obtain a5 b5 where s5:
      "weightedStep (Num a4, Num b4) (''velocity'', velocity F) = (Num a5, Num b5)"
      "0 \<le> a5" "a5 \<le> b5"
    using step_inv [OF assms(5) s4(2,3), of "''velocity''"] by auto
  obtain a6 b6 where s6:
      "weightedStep (Num a5, Num b5) (''client'', client F) = (Num a6, Num b6)"
      "0 \<le> a6" "a6 \<le> b6" "0 < b6"
    using client_step [OF assms(6) s5(2,3)] by auto
  have "foldl weightedStep (Num 0, Num 0) (entries F) = (Num a6, Num b6)"
    by (simp only: entries_def foldl.simps s1 s2 s3 s4 s5 s6)
  then have "calculateWeightedScore F = Num (a6 / b6)"
    using s6 by (simp add: calculateWeightedScore_def jgt_def)
  then show ?thesis using s6 by (simp add: in01_def)
qed

lemma confidence_in01:
  assumes "createdAt p \<le> now"
  shows "in01 (calculateConfidence now p)"
proof -
  have "0 \<le> real_of_int (now - createdAt p)" using assms by simp
  then have "0 \<le> min (real_of_int (now - createdAt p) / (1000 * 60 * 60 * 24) / 30) 1"
    by simp
  moreover have "0 \<le> min (real (length (samples p)) / 20) 1" by simp
  ultimately show ?thesis
    by (simp add: calculateConfidence_def Let_def in01_def)
qed

lemma score0: "finalScore (calculateRisk 1000 session0 (Some profile0) 0.7) = Num 0.7"
  by (simp add: risk_defs example_defs Let_def)

lemma score1: "finalScore (calculateRisk 1000 session0 (Some profile0) 1) = Num 0.73"
  by (simp add: risk_defs example_defs Let_def)

subsection \<open>The temporal factor as a function of the session's mean hold time\<close>

text \<open>
  With a historical mean hold time that is not negative, the temporal factor does not
  decrease when the session's mean hold time moves away from it.
\<close>

lemma foldl_jadd_Num: "foldl jadd (Num s) (map Num xs) = Num (s + sum_list xs)"
  by (induction xs arbitrary: s) (simp_all add: add.assoc)

text \<open>The mean of a session's timings is always a number.\<close>

lemma calculateAverage_Num:
  "calculateAverage (map Num xs) = Num (if xs = [] then 0 else sum_list xs / real (length xs))"
  by (simp add: calculateAverage_def jsum_def foldl_jadd_Num)

lemma holdRisk_pos: "0 < a \<Longrightarrow> holdRisk c a = Num (min (\<bar>c - a\<bar> / a * 2) 1)"
  by (simp add: holdRisk_def jsub_def)

lemma holdRisk_zero: "holdRisk c 0 = (if c = 0 then NaN else Num 1)"
  by (simp add: holdRisk_def jsub_def inf_signed_def)

lemma avg2_mono:
  "h1 \<le> h2 \<Longrightarrow> \<not> jlt (jdiv (jadd (Num h2) F) (Num 2)) (jdiv (jadd (Num h1) F) (Num 2))"
  by (cases F) simp_all

lemma jlt_irrefl: "\<not> jlt x x"
  by (cases x) simp_all

lemma jlt_NaN_right: "jlt x NaN = False"
  by (cases x) simp_all

lemma holdRisk_mono:
  assumes "0 \<le> a" "\<bar>c1 - a\<bar> \<le> \<bar>c2 - a\<bar>"
  shows "\<not> jlt (jdiv (jadd (holdRisk c2 a) F) (Num 2)) (jdiv (jadd (holdRisk c1 a) F) (Num 2))"
proof (cases "a = 0")
  case True
  show ?thesis
  proof (cases "c1 = 0")
    case True
    with \<open>a = 0\<close> show ?thesis by (simp add: holdRisk_zero jlt_NaN_right)
  next
    case False
    with assms \<open>a = 0\<close> have "c2 \<noteq> 0" by auto
    with False \<open>a = 0\<close> show ?thesis by (simp add: holdRisk_zero jlt_irrefl)
  qed
next
  case False
  with assms have a: "0 < a" by simp
  then have "\<bar>c1 - a\<bar> / a * 2 \<le> \<bar>c2 - a\<bar> / a * 2"
    using assms(2) by (simp add: divide_right_mono)
  then have "min (\<bar>c1 - a\<bar> / a * 2) 1 \<le> min (\<bar>c2 - a\<bar> / a * 2) 1"
    by (simp add: min_le_iff_disj)
  then show ?thesis using a by (simp add: holdRisk_pos avg2_mono)
qed

lemma temporal_mono:
  assumes "calculateAverage (map avgHoldTime (samples p)) = Num a" "0 \<le> a"
    and "calculateAverage (map Num (holdTimes f)) = Num c1"
      "calculateAverage (map Num hs) = Num c2"
    and "\<bar>c1 - a\<bar> \<le> \<bar>c2 - a\<bar>"
  shows "\<not> jlt (calculateTemporalRisk (f\<lparr> holdTimes := hs \<rparr>) p) (calculateTemporalRisk f p)"
  using holdRisk_mono [OF assms(2) assms(5)]
  by (simp add: calculateTemporalRisk_def Let_def assms(1) assms(3) assms(4) holdRisk_def)

section \<open>Auth orchestrator: decision and profile update\<close>

lemma schema0: "0 \<le> r \<Longrightarrow> r \<le> 1 \<Longrightarrow> loginSchema (body0 r)"
  by (simp add: loginSchema_def body0_def example_defs)

lemma valid0: "validateUser0 (trim (username (body0 r))) (password (body0 r)) = Some ''u1''"
  by (simp add: body0_def validateUser0_def trim_def isSpace_def)

text \<open>
  The decision of \<open>login\<close> for a request that passes the schema and the credential
  check: the two tests are \<open>finalScore < 0.3\<close> and \<open>finalScore < 0.7\<close>.
\<close>

lemma login_decision:
  assumes "loginSchema body" "validateUser (trim (username body)) (password body) = Some uid"
  shows "action (fst (login validateUser d now body st)) =
     (if jlt (finalScore (calculateRisk now (features body) (biometricProfiles st uid)
                (body_riskScore body))) (Num 0.3) then GRANT
      else if jlt (finalScore (calculateRisk now (features body) (biometricProfiles st uid)
                (body_riskScore body))) (Num 0.7) then STEP_UP
      else DENY)"
  using assms by (simp add: login_def Let_def split: prod.split)

text \<open>
  The profile after such a request, whatever the decision: the summary of the session
  is appended, and the oldest sample is dropped when there are more than 50.
\<close>

lemma login_updates_profile:
  assumes "loginSchema body" "validateUser (trim (username body)) (password body) = Some uid"
    and "biometricProfiles st uid = Some p"
  shows "biometricProfiles (snd (login validateUser d now body st)) uid =
     Some (p\<lparr> samples :=
              (if length (samples p) + 1 > 50
               then tl (samples p @ [summarize now (features body)])
               else samples p @ [summarize now (features body)]),
            lastUpdated := now \<rparr>)"
  using assms
  by (simp add: login_def updateBiometricProfile_def Let_def split: prod.split)

text \<open>
  Claim C3 fails on the code at a final score of exactly 0.7.  The user \<open>alice\<close> has a
  two-sample profile and logs in with the session \<open>session0\<close> and a client risk score
  of 0.7: the final score is 0.7, and \<open>login\<close> answers \<open>DENY\<close>, issues no token and
  creates no challenge, where the claim asks for a step-up challenge.
\<close>

theorem C3_deny_at_boundary:
  "finalScore (calculateRisk 1000 session0 (Some profile0) 0.7) = Num 0.7 \<and>
   action (fst (login validateUser0 drawn0 1000 (body0 0.7) state0)) = DENY \<and>
   sessionToken (fst (login validateUser0 drawn0 1000 (body0 0.7) state0)) = None \<and>
   resp_challengeId (fst (login validateUser0 drawn0 1000 (body0 0.7) state0)) = None \<and>
   challenges (snd (login validateUser0 drawn0 1000 (body0 0.7) state0)) = Map.empty"
proof -
  have s: "finalScore (calculateRisk 1000 (features (body0 0.7)) (biometricProfiles state0 ''u1'')
              (body_riskScore (body0 0.7))) = Num 0.7"
    using score0 by (simp add: body0_def state0_def)
  show ?thesis
    using score0 by (simp add: login_def schema0 valid0 Let_def s) (simp add: state0_def)
qed

text \<open>
  Claim C2 fails on the code.  The same user logs in with a client risk score of 1:
  the final score is 0.73, \<open>login\<close> answers \<open>DENY\<close>, and the profile has nevertheless
  received the summary of the session (mean hold time 200) as its third sample:
  \<open>updateBiometricProfile\<close> runs before the decision.
\<close>

theorem C2_profile_updated_on_deny:
  "finalScore (calculateRisk 1000 session0 (Some profile0) 1) = Num 0.73 \<and>
   action (fst (login validateUser0 drawn0 1000 (body0 1) state0)) = DENY \<and>
   map_option samples (biometricProfiles state0 ''u1'') =
     Some [sampleOf 99 99 99, sampleOf 101 101 101] \<and>
   map_option samples
       (biometricProfiles (snd (login validateUser0 drawn0 1000 (body0 1) state0)) ''u1'') =
     Some [sampleOf 99 99 99, sampleOf 101 101 101, summarize 1000 session0] \<and>
   avgHoldTime (summarize 1000 session0) = Num 200"
proof -
  have s: "finalScore (calculateRisk 1000 (features (body0 1)) (biometricProfiles state0 ''u1'')
              (body_riskScore (body0 1))) = Num 0.73"
    using score1 by (simp add: body0_def state0_def)
  have a: "avgHoldTime (summarize 1000 session0) = Num 200"
    by (simp add: summarize_def session0_def sessionOf_def jsum_def Let_def)
  show ?thesis
    using score1
    by (simp add: login_def schema0 valid0 Let_def s a)
       (simp add: state0_def updateBiometricProfile_def profile0_def profileOf_def body0_def Let_def)
qed

section \<open>Risk fusion engine after a login with negative timings\<close>

lemma schemaOf:
  "0 \<le> r \<Longrightarrow> r \<le> 1 \<Longrightarrow> 0 \<le> e \<Longrightarrow> e \<le> 1 \<Longrightarrow> 0 \<le> v \<Longrightarrow>
   loginSchema (bodyOf r (sessionOf hs fs e v))"
  by (simp add: loginSchema_def bodyOf_def sessionOf_def)

lemma validOf: "validateUser0 (trim (username (bodyOf r f))) (password (bodyOf r f)) = Some ''u1''"
  by (simp add: bodyOf_def validateUser0_def trim_def isSpace_def)

text \<open>
  The profile that \<open>login\<close> leaves after each of the two requests with negative
  timings: \<open>updateBiometricProfile\<close> has stored the negative means.
\<close>

lemma profile_afterNegativeLogin:
  "biometricProfiles afterNegativeLogin ''u1'' =
     Some \<lparr> userId = ''u1'', createdAt = 0, lastUpdated = 1000,
            samples = [\<lparr> avgHoldTime = Num (- 1000), avgFlightTime = Num (- 1000),
                         holdTimeVariance = Num 0, flightTimeVariance = Num 0,
                         smp_errorRate = Num 0, smp_typingSpeed = Num 100,
                         holdVelocityVariance = None, smp_timestamp = 1000 \<rparr>] \<rparr>"
proof -
  have s: "loginSchema negativeLogin"
    by (simp add: negativeLogin_def schemaOf)
  have v: "validateUser0 (trim (username negativeLogin)) (password negativeLogin) = Some ''u1''"
    by (simp add: negativeLogin_def validOf)
  have e: "biometricProfiles emptyState ''u1'' = Some (profileOf 0 [])"
    by (simp add: emptyState_def)
  note l = login_updates_profile [where body = negativeLogin and validateUser = validateUser0
      and uid = "''u1''" and st = emptyState and p = "profileOf 0 []" and d = drawn0 and now = 1000]
  show ?thesis
    unfolding afterNegativeLogin_def
    by (simp add: l [OF s v e])
       (simp add: negativeLogin_def profileOf_def bodyOf_def summarize_def sessionOf_def jsum_def
          jsub_def Let_def)
qed

lemma profile_afterNegativeHoldLogin:
  "biometricProfiles afterNegativeHoldLogin ''u1'' =
     Some \<lparr> userId = ''u1'', createdAt = 0, lastUpdated = 1000,
            samples = [\<lparr> avgHoldTime = Num (- 100), avgFlightTime = Num 100,
                         holdTimeVariance = Num 0, flightTimeVariance = Num 0,
                         smp_errorRate = Num 0, smp_typingSpeed = Num 100,
                         holdVelocityVariance = None, smp_timestamp = 1000 \<rparr>] \<rparr>"
proof -
  have s: "loginSchema negativeHoldLogin"
    by (simp add: negativeHoldLogin_def schemaOf)
  have v: "validateUser0 (trim (username negativeHoldLogin)) (password negativeHoldLogin) =
      Some ''u1''"
    by (simp add: negativeHoldLogin_def validOf)
  have e: "biometricProfiles emptyState ''u1'' = Some (profileOf 0 [])"
    by (simp add: emptyState_def)
  note l = login_updates_profile [where body = negativeHoldLogin and validateUser = validateUser0
      and uid = "''u1''" and st = emptyState and p = "profileOf 0 []" and d = drawn0 and now = 1000]
  show ?thesis
    unfolding afterNegativeHoldLogin_def
    by (simp add: l [OF s v e])
       (simp add: negativeHoldLogin_def profileOf_def bodyOf_def summarize_def sessionOf_def
          jsum_def jsub_def Let_def)
qed

lemma first_login_score:
  "finalScore (calculateRisk 1000 (sessionOf [- 1000] [- 1000] 0 100)
     (biometricProfiles emptyState ''u1'') 0.5) = Num 0.405"
  by (simp add: risk_defs emptyState_def profileOf_def Let_def)

lemma second_login_score:
  "finalScore (calculateRisk 2000 session1 (biometricProfiles afterNegativeLogin ''u1'') 0.5) =
     Num (- 0.47)"
  by (simp add: profile_afterNegativeLogin risk_defs example_defs Let_def)

text \<open>
  Claim C6 fails on the code.  A user whose profile has no samples logs in with a hold
  and a flight time of -1000 and a client risk score of 0.5: the request passes the
  schema, is answered \<open>STEP_UP\<close>, and its mean hold time of -1000 is stored in the
  profile.  The user's next login, with a hold and a flight time of 100 and the same
  client risk score, gets the temporal factor -2.2 and the final score -0.47, which is
  not in \<open>[0, 1]\<close>, and is answered \<open>GRANT\<close> with a token that carries that score.
  \<open>calculateTemporalRisk\<close> divides by the historical mean without the test for a
  positive denominator that the consistency, deviation and velocity factors make.
\<close>

theorem C6_score_below_zero:
  "loginSchema negativeLogin \<and>
   action (fst (login validateUser0 drawn0 1000 negativeLogin emptyState)) = STEP_UP \<and>
   map_option (map avgHoldTime \<circ> samples) (biometricProfiles afterNegativeLogin ''u1'') =
     Some [Num (- 1000)] \<and>
   loginSchema (bodyOf 0.5 session1) \<and>
   finalScore (calculateRisk 2000 session1 (biometricProfiles afterNegativeLogin ''u1'') 0.5) =
     Num (- 0.47) \<and>
   \<not> in01 (finalScore (calculateRisk 2000 session1
            (biometricProfiles afterNegativeLogin ''u1'') 0.5)) \<and>
   temporal (factors (calculateRisk 2000 session1
            (biometricProfiles afterNegativeLogin ''u1'') 0.5)) = Num (- 2.2) \<and>
   action (fst (login validateUser0 drawn0 2000 (bodyOf 0.5 session1) afterNegativeLogin)) =
     GRANT \<and>
   sessionToken (fst (login validateUser0 drawn0 2000 (bodyOf 0.5 session1) afterNegativeLogin)) =
     Some (''u1'', Num (- 0.47))"
proof -
  have s1: "loginSchema negativeLogin"
    by (simp add: negativeLogin_def schemaOf)
  have s2: "loginSchema (bodyOf 0.5 session1)"
    by (simp add: session1_def schemaOf)
  have a1: "action (fst (login validateUser0 drawn0 1000 negativeLogin emptyState)) = STEP_UP"
    using login_decision [OF s1, of validateUser0 "''u1''" drawn0 1000 emptyState]
      first_login_score
    by (simp add: negativeLogin_def validOf) (simp add: bodyOf_def)
  have f2: "finalScore (calculateRisk 2000 (features (bodyOf 0.5 session1))
      (biometricProfiles afterNegativeLogin ''u1'') (body_riskScore (bodyOf 0.5 session1))) =
      Num (- 0.47)"
    using second_login_score by (simp add: bodyOf_def)
  have a2: "action (fst (login validateUser0 drawn0 2000 (bodyOf 0.5 session1)
      afterNegativeLogin)) = GRANT"
    using login_decision [OF s2, of validateUser0 "''u1''" drawn0 2000 afterNegativeLogin] f2
    by (simp add: validOf)
  have t2: "sessionToken (fst (login validateUser0 drawn0 2000 (bodyOf 0.5 session1)
      afterNegativeLogin)) = Some (''u1'', Num (- 0.47))"
    using f2 s2 by (simp add: login_def validOf Let_def)
  have tf: "temporal (factors (calculateRisk 2000 session1
            (biometricProfiles afterNegativeLogin ''u1'') 0.5)) = Num (- 2.2)"
    by (simp add: profile_afterNegativeLogin risk_defs example_defs Let_def)
  show ?thesis
    using s1 s2 a1 a2 t2 tf second_login_score
    by (simp add: profile_afterNegativeLogin in01_def)
qed

text \<open>
  Claim C8 fails on the code.  A user whose profile has no samples logs in with a hold
  time of -100, which passes the schema and leaves the historical mean hold time -100.
  With that profile and every other input fixed, a session whose mean hold time is 100
  (absolute difference 200) gets the temporal factor -2, and a session whose mean hold
  time is 200 (absolute difference 300) gets -3: the factor decreases.  The cause is
  the division by the historical mean without a test for a positive denominator.
\<close>

theorem C8_temporal_decreases:
  "loginSchema negativeHoldLogin \<and>
   map_option (\<lambda>p. calculateAverage (map avgHoldTime (samples p)))
     (biometricProfiles afterNegativeHoldLogin ''u1'') = Some (Num (- 100)) \<and>
   calculateAverage (map Num (holdTimes session1)) = Num 100 \<and>
   calculateAverage (map Num (holdTimes (session1\<lparr> holdTimes := [200] \<rparr>))) = Num 200 \<and>
   temporal (factors (calculateRisk 2000 session1
     (biometricProfiles afterNegativeHoldLogin ''u1'') 0.5)) = Num (- 2) \<and>
   temporal (factors (calculateRisk 2000 (session1\<lparr> holdTimes := [200] \<rparr>)
     (biometricProfiles afterNegativeHoldLogin ''u1'') 0.5)) = Num (- 3) \<and>
   jlt (temporal (factors (calculateRisk 2000 (session1\<lparr> holdTimes := [200] \<rparr>)
          (biometricProfiles afterNegativeHoldLogin ''u1'') 0.5)))
       (temporal (factors (calculateRisk 2000 session1
          (biometricProfiles afterNegativeHoldLogin ''u1'') 0.5)))"
proof -
  have s: "loginSchema negativeHoldLogin"
    by (simp add: negativeHoldLogin_def schemaOf)
  have t1: "temporal (factors (calculateRisk 2000 session1
     (biometricProfiles afterNegativeHoldLogin ''u1'') 0.5)) = Num (- 2)"
    by (simp add: profile_afterNegativeHoldLogin risk_defs example_defs Let_def)
  have t2: "temporal (factors (calculateRisk 2000 (session1\<lparr> holdTimes := [200] \<rparr>)
     (biometricProfiles afterNegativeHoldLogin ''u1'') 0.5)) = Num (- 3)"
    by (simp add: profile_afterNegativeHoldLogin risk_defs example_defs Let_def)
  show ?thesis
    using s t1 t2
    by (simp add: profile_afterNegativeHoldLogin calculateAverage_def jsum_def example_defs)
qed

end
